theory Spec2Isabelle
  imports Main "HOL-Library.Sublist"
begin

section \<open>The TensorFlow frontend: data model\<close>

text \<open>
  The development follows \<^verbatim>\<open>src/frontends/tensorflow/src/frontend.cpp\<close>.
  The file is the orchestrator of the frontend; the graph classes it works on
  (\<^verbatim>\<open>ov::Model\<close>, \<^verbatim>\<open>ov::Node\<close>, \<^verbatim>\<open>ov::Output\<close>), the translation session
  and the rewrite passes live in other files, and are modelled where they are introduced.
\<close>

subsection \<open>Decoded nodes\<close>

text \<open>
  A node of the source graph as the decoder exposes it: op-type tag, name, ordered
  input references (producer name and port), declared output arity, nested subgraphs.
\<close>

datatype decoded_node =
  DecodedNode (op_type: string) (node_name: string) (inputs: "(string \<times> nat) list")
    (output_arity: nat) (nested_subgraphs: "decoded_node list list")

type_synonym decoded_graph = "decoded_node list"

subsection \<open>IR nodes and models\<close>

text \<open>
  An output port of a node: the producing node and the port index. A node object is
  referred to by an identifier, which stands for the pointer of the source.
\<close>

datatype ov_output = Output (get_node: string) (get_index: nat)

text \<open>
  An IR node. \<open>fw\<close> is set exactly when the node is a \<^verbatim>\<open>FrameworkNode\<close>
  (the down-cast \<^verbatim>\<open>as_type_ptr<FrameworkNode>\<close> succeeds) and then holds the decoder
  and the attribute map; \<open>multi_subgraph\<close> is set exactly when the node is a
  \<^verbatim>\<open>MultiSubGraphOp\<close> and then holds its internal subgraphs. The two down-casts of
  the source are independent tests, so the two fields are independent.
  A model is the ordered list of its operations, what \<^verbatim>\<open>get_ordered_ops\<close> returns.
\<close>

datatype node =
  Node (node_id: string) (fw: "(decoded_node \<times> (string \<times> string) list) option")
    (input_values: "ov_output list") (output_size: nat) (multi_subgraph: "model list option")
and model = Model (get_ordered_ops: "node list")

text \<open>
  The attribute key under which a failed translation stores its message
  (\<^verbatim>\<open>FrameworkNode::failed_conversion_key\<close>). The constant is declared in
  \<^verbatim>\<open>tf_framework_node.hpp\<close>; no property below depends on its value.
\<close>

definition failed_conversion_key :: string where
  "failed_conversion_key = ''failed_conversion_key''"

definition is_framework_node :: "node \<Rightarrow> bool" where
  "is_framework_node n = (fw n \<noteq> None)"

text \<open>\<^verbatim>\<open>FrameworkNode::get_op_type\<close> reads the tag of the stored decoder.\<close>

definition get_op_type :: "node \<Rightarrow> string" where
  "get_op_type n = (case fw n of None \<Rightarrow> [] | Some (dec, attrs) \<Rightarrow> op_type dec)"

section \<open>The collector of unsupported operations and failures\<close>

text \<open>
  The two accumulators of \<^verbatim>\<open>get_unsupported_operations_and_failures\<close>: the vector of
  unsupported tags and the \<^verbatim>\<open>unordered_map\<close> of failures. The map is kept as an
  association list with one entry per key, in insertion order; the source only looks keys
  up (\<^verbatim>\<open>count\<close>), inserts under an absent key, asks for the size and iterates.
\<close>

type_synonym report = "string list \<times> (string \<times> string) list"

definition count_key :: "(string \<times> string) list \<Rightarrow> string \<Rightarrow> nat" where
  "count_key failures k = (if k \<in> fst ` set failures then 1 else 0)"

text \<open>
  The body of the first \<^verbatim>\<open>if\<close> of the loop, lines 39 to 52: what one node adds to
  the accumulators.
\<close>

definition record_framework_node :: "node \<Rightarrow> report \<Rightarrow> report" where
  "record_framework_node n acc =
     (case fw n of
        None \<Rightarrow> acc
      | Some (dec, fw_node_attrs) \<Rightarrow>
          (let t = op_type dec; unsupported_operations = fst acc; failures = snd acc in
           if map_of fw_node_attrs failed_conversion_key \<noteq> None \<and> count_key failures t = 0
           then (unsupported_operations,
                 failures @ [(t, the (map_of fw_node_attrs failed_conversion_key))])
           else if t \<notin> set unsupported_operations
           then (unsupported_operations @ [t], failures)
           else (unsupported_operations, failures)))"

text \<open>
  The traversal, lines 35 to 60: every node of the ordered operations is recorded, and the
  subgraphs of a multi-subgraph node are walked right after the node, by index.
\<close>

function get_unsupported_operations_and_failures :: "model \<Rightarrow> report \<Rightarrow> report"
  and ordered_ops_loop :: "node list \<Rightarrow> report \<Rightarrow> report"
  and visit_node :: "node \<Rightarrow> report \<Rightarrow> report"
  and subgraphs_loop :: "model list \<Rightarrow> report \<Rightarrow> report"
where
  "get_unsupported_operations_and_failures (Model ns) acc = ordered_ops_loop ns acc"
| "ordered_ops_loop [] acc = acc"
| "ordered_ops_loop (n # ns) acc = ordered_ops_loop ns (visit_node n acc)"
| "visit_node (Node i f ins k ms) acc =
     (let acc' = record_framework_node (Node i f ins k ms) acc in
      case ms of None \<Rightarrow> acc' | Some gs \<Rightarrow> subgraphs_loop gs acc')"
| "subgraphs_loop [] acc = acc"
| "subgraphs_loop (g # gs) acc =
     subgraphs_loop gs (get_unsupported_operations_and_failures g acc)"
  by pat_completeness auto
termination
  by (relation "measure (\<lambda>x. case x of
        Inl (Inl (g, _)) \<Rightarrow> 2 * size g + 1
      | Inl (Inr (ns, _)) \<Rightarrow> 2 * size_list size ns
      | Inr (Inl (n, _)) \<Rightarrow> 2 * size n
      | Inr (Inr (gs, _)) \<Rightarrow> 2 * size_list size gs)") auto

section \<open>Translators and the targeted re-translation of a framework node\<close>

text \<open>
  What the conversion can raise. \<^verbatim>\<open>FRONT_END_GENERAL_CHECK\<close> raises a general failure and
  \<^verbatim>\<open>FRONT_END_OP_CONVERSION_CHECK\<close> an op-conversion failure, each carrying the text
  given to the macro; \<^verbatim>\<open>std::map::at\<close> raises \<^verbatim>\<open>std::out_of_range\<close>; an exception
  of a translator or of the validation of the results passes through unchanged.
\<close>

datatype failure =
  GeneralFailure string
  | OpConversionFailure string
  | OutOfRange string
  | TranslatorException string
  | ValidationException string

datatype node_context = NodeContext (get_decoder: decoded_node) (get_inputs: "ov_output list")

datatype named_output = NamedOutput (output_name: string) (port: ov_output)

text \<open>
  A translator either raises, with a message, or returns its outputs. An output of the
  source carries a pointer to its node, so the nodes a translator builds come with the
  outputs; here nodes are referred to by name, and the translator returns the nodes it
  built beside the outputs. The two shapes are the indexed and the named-and-indexed
  creator functions; calling a translator gives named outputs in both cases.
\<close>

datatype translator =
  CreatorFunctionIndexed "node_context \<Rightarrow> string + node list \<times> ov_output list"
  | CreatorFunctionNamedAndIndexed "node_context \<Rightarrow> string + node list \<times> named_output list"

type_synonym translator_dictionary = "string \<rightharpoonup> translator"

definition call_translator ::
  "translator \<Rightarrow> node_context \<Rightarrow> string + node list \<times> named_output list" where
  "call_translator tr ctx =
     (case tr of
        CreatorFunctionIndexed f \<Rightarrow>
          (case f ctx of Inl msg \<Rightarrow> Inl msg
           | Inr (created, outs) \<Rightarrow> Inr (created, map (NamedOutput []) outs))
      | CreatorFunctionNamedAndIndexed f \<Rightarrow> f ctx)"

text \<open>\<^verbatim>\<open>node->outputs()\<close>: the output ports of a node, in port order.\<close>

definition outputs :: "node \<Rightarrow> ov_output list" where
  "outputs n = map (Output (node_id n)) [0..<output_size n]"

fun with_input_values :: "(ov_output list \<Rightarrow> ov_output list) \<Rightarrow> node \<Rightarrow> node" where
  "with_input_values h (Node i f ins k ms) = Node i f (h ins) k ms"

text \<open>
  Modelled from the spec: \<^verbatim>\<open>ov::Output::replace\<close> is not part of the file. Section 4.3:
  every existing consumer of the old output port is rewired to the new output. The
  consumers of a port are the inputs of the nodes of the same graph that read it.
\<close>

definition replace :: "ov_output \<Rightarrow> ov_output \<Rightarrow> node list \<Rightarrow> node list" where
  "replace old new ns = map (with_input_values (map (\<lambda>v. if v = old then new else v))) ns"

text \<open>
  Modelled from the spec: which nodes \<^verbatim>\<open>get_ordered_ops\<close> lists after a rewiring is decided
  by the graph class, not by the file. Section 3, lifecycles: a placeholder is removed when
  the retried translation replaces it, or remains. The nodes the translator built take the
  place of the placeholder, and the placeholder stays listed only while some input still
  reads one of its ports.
\<close>

definition relink :: "node \<Rightarrow> node list \<Rightarrow> node list \<Rightarrow> node list" where
  "relink n created ns =
     concat (map (\<lambda>m. if node_id m = node_id n
                        then created @
                             (if node_id n \<in> set (map get_node (concat (map input_values ns)))
                              then [m] else [])
                        else [m]) ns)"

text \<open>The loop of lines 78 to 80: the two output lists are walked together, to the shorter.\<close>

fun replace_outputs :: "named_output list \<Rightarrow> ov_output list \<Rightarrow> node list \<Rightarrow> node list" where
  "replace_outputs (new_output # new_outputs) (old_output # old_outputs) ns =
     replace_outputs new_outputs old_outputs (replace old_output (port new_output) ns)"
| "replace_outputs [] old_outputs ns = ns"
| "replace_outputs new_outputs [] ns = ns"

text \<open>\<^verbatim>\<open>translate_framework_node\<close>, lines 62 to 81.\<close>

definition translate_framework_node ::
  "node \<Rightarrow> translator_dictionary \<Rightarrow> model \<Rightarrow> failure + model" where
  "translate_framework_node n op_translators g =
     (let type = get_op_type n in
      case op_translators type of
        None \<Rightarrow> Inl (OpConversionFailure (''No translator found for '' @ type @ '' node.''))
      | Some translator \<Rightarrow>
          (let ov_inputs = input_values n;
               node_ctx = NodeContext (fst (the (fw n))) ov_inputs in
           case call_translator translator node_ctx of
             Inl msg \<Rightarrow> Inl (TranslatorException msg)
           | Inr (created, new_node_outputs) \<Rightarrow>
               Inr (Model (relink n created
                      (replace_outputs new_node_outputs (outputs n) (get_ordered_ops g))))))"

section \<open>The translation session\<close>

text \<open>
  Modelled from the spec: the class \<^verbatim>\<open>TranslateSession\<close> (\<^verbatim>\<open>translate_session.hpp\<close>) is
  not part of the file. Section 4.2: the decoded nodes are visited in their order; the
  context of a node binds the IR outputs already computed for its inputs; a node with no
  translator becomes a placeholder marked unsupported, with the declared output arity; a
  node whose translator raises becomes a placeholder marked failed, storing the error
  text; otherwise the outputs of the translator are bound to the output slots of the node;
  the nested subgraphs are translated with the same registry and attached to the produced
  node, real or placeholder.
\<close>

definition resolve_input :: "(string \<rightharpoonup> ov_output list) \<Rightarrow> string \<times> nat \<Rightarrow> ov_output" where
  "resolve_input bindings r =
     (case bindings (fst r) of
        None \<Rightarrow> Output (fst r) (snd r)
      | Some outs \<Rightarrow> if snd r < length outs then outs ! snd r else Output (fst r) (snd r))"

text \<open>
  Modelled from the spec: the placeholder of a decoded node. It keeps the tag and the
  decoder, has the declared arity, and owns the translated nested subgraphs when the
  decoded node has some.
\<close>

definition placeholder ::
  "decoded_node \<Rightarrow> ov_output list \<Rightarrow> (string \<times> string) list \<Rightarrow> model list \<Rightarrow> node" where
  "placeholder d ins attrs subs =
     Node (node_name d) (Some (d, attrs)) ins (output_arity d)
       (if subs = [] then None else Some subs)"

fun with_subgraphs :: "model list \<Rightarrow> node \<Rightarrow> node" where
  "with_subgraphs subs (Node i f ins k ms) = Node i f ins k (Some subs)"

text \<open>
  Modelled from the spec: the nested graphs of a translated node are attached to the last
  node its translator built, the one that closes the translation of the decoded node.
\<close>

definition attach_subgraphs :: "model list \<Rightarrow> node list \<Rightarrow> node list" where
  "attach_subgraphs subs created =
     (if subs = [] \<or> created = [] then created
      else butlast created @ [with_subgraphs subs (last created)])"

text \<open>
  Modelled from the spec: steps 2 to 4 of section 4.2 for one decoded node: the produced
  nodes and the outputs bound to the output slots of the decoded node.
\<close>

definition translate_decoded_node ::
  "translator_dictionary \<Rightarrow> decoded_node \<Rightarrow> node_context \<Rightarrow> model list
     \<Rightarrow> node list \<times> ov_output list" where
  "translate_decoded_node translator_map d ctx subs =
     (case translator_map (op_type d) of
        None \<Rightarrow>
          (let p = placeholder d (get_inputs ctx) [] subs in ([p], outputs p))
      | Some translator \<Rightarrow>
          (case call_translator translator ctx of
             Inl msg \<Rightarrow>
               (let p = placeholder d (get_inputs ctx) [(failed_conversion_key, msg)] subs
                in ([p], outputs p))
           | Inr (created, outs) \<Rightarrow> (attach_subgraphs subs created, map port outs)))"

function translate_graph :: "translator_dictionary \<Rightarrow> decoded_graph \<Rightarrow> model"
  and translate_nodes ::
    "translator_dictionary \<Rightarrow> decoded_node list \<Rightarrow> (string \<rightharpoonup> ov_output list) \<Rightarrow> node list"
  and translate_subgraphs :: "translator_dictionary \<Rightarrow> decoded_graph list \<Rightarrow> model list"
where
  "translate_graph translator_map dg = Model (translate_nodes translator_map dg Map.empty)"
| "translate_nodes translator_map [] bindings = []"
| "translate_nodes translator_map (d # ds) bindings =
     (let ctx = NodeContext d (map (resolve_input bindings) (inputs d));
          subs = translate_subgraphs translator_map (nested_subgraphs d);
          produced = translate_decoded_node translator_map d ctx subs
      in fst produced @
         translate_nodes translator_map ds (bindings(node_name d \<mapsto> snd produced)))"
| "translate_subgraphs translator_map [] = []"
| "translate_subgraphs translator_map (g # gs) =
     translate_graph translator_map g # translate_subgraphs translator_map gs"
  by pat_completeness auto
termination
  apply (relation "measure (\<lambda>x. case x of
        Inl (_, dg) \<Rightarrow> 2 * size_list size dg + 1
      | Inr (Inl (_, ds, _)) \<Rightarrow> 2 * size_list size ds
      | Inr (Inr (_, gs)) \<Rightarrow> 2 * size_list (size_list size) gs)")
      apply auto
  subgoal for d ds by (cases d) simp
  done

text \<open>
  The model handed to the frontend: the frontend's own \<^verbatim>\<open>InputModel\<close>, which holds the
  decoded graph, or the input model of another frontend, for which the down-cast gives
  a null pointer.
\<close>

datatype input_model = InputModel decoded_graph | ForeignInputModel

text \<open>
  Modelled from the spec: \<^verbatim>\<open>TranslateSession::get_converted_model\<close>. Section 7: an input
  model that is not of the expected kind is fatal; on a decoded graph the session always
  completes.
\<close>

definition get_converted_model :: "translator_dictionary \<Rightarrow> input_model \<Rightarrow> failure + model" where
  "get_converted_model translator_map im =
     (case im of
        ForeignInputModel \<Rightarrow> Inl (GeneralFailure ''Invalid input model'')
      | InputModel dg \<Rightarrow> Inr (translate_graph translator_map dg))"

section \<open>The frontend\<close>

subsection \<open>Effects\<close>

text \<open>
  The calls that leave the file are kept in a trace, in the order they are made: a run
  of the translation session, a run of a pass, a run of the passes of a registered
  transformation extension, an event sent to the telemetry sink. Two marks record the
  steps of the file itself that the stage order is stated with: a run of the collector,
  and the check that ends the strict conversion.
\<close>

datatype pass =
  SavedModelUnusedRemover
  | EmbeddingSegmentSingleFeatureFusion
  | BlockLSTMReplacer
  | GRUBlockCellReplacer
  | ConstToResultRemover
  | TransposeSinkingGeneral
  | ReverseShapeAndTypeInfer

datatype event =
  SessionRun
  | PassRun pass
  | TransformationRun nat
  | SendEvent string string
  | CollectorRun
  | ConversionCheck

text \<open>
  What the file takes from the rest of the library: the rewrite a pass performs on a
  model, the validation of the results of a model, which may raise, and the order in
  which an \<^verbatim>\<open>unordered_map\<close> is iterated.
\<close>

record externals =
  run_pass :: "pass \<Rightarrow> model \<Rightarrow> model"
  validate_results :: "model \<Rightarrow> failure option"
  iteration_order :: "(string \<times> string) list \<Rightarrow> (string \<times> string) list"

text \<open>\<^verbatim>\<open>manager.run_passes\<close>: the registered passes run in the order of registration.\<close>

fun run_passes :: "externals \<Rightarrow> pass list \<Rightarrow> model \<Rightarrow> event list \<times> model" where
  "run_passes ext [] g = ([], g)"
| "run_passes ext (p # ps) g =
     (let r = run_passes ext ps (run_pass ext p g) in (PassRun p # fst r, snd r))"

definition stage_a :: "pass list" where
  "stage_a = [SavedModelUnusedRemover, EmbeddingSegmentSingleFeatureFusion, BlockLSTMReplacer,
              GRUBlockCellReplacer, ConstToResultRemover]"

definition stage_b :: "pass list" where
  "stage_b = [TransposeSinkingGeneral, ReverseShapeAndTypeInfer]"

text \<open>\<^verbatim>\<open>FrontEnd::normalize\<close>, lines 306 to 334.\<close>

definition normalize :: "externals \<Rightarrow> model \<Rightarrow> event list \<times> model" where
  "normalize ext g =
     (let a = run_passes ext stage_a g;
          r = get_unsupported_operations_and_failures (snd a) ([], []);
          unsupported_operations = fst r;
          failures = snd r
      in if length unsupported_operations > 0 \<or> length failures > 0
         then (fst a @ [CollectorRun], snd a)
         else (let b = run_passes ext stage_b (snd a)
               in (fst a @ [CollectorRun] @ fst b, snd b)))"

subsection \<open>Extensions\<close>

text \<open>
  The extension classes the chain of down-casts of \<^verbatim>\<open>add_extension\<close> tells apart, and
  any other extension. A generic conversion extension may hold an indexed converter, a
  named-and-indexed converter, or neither.
\<close>

datatype extension =
  TelemetryExtension string
  | DecoderTransformationExtension "model \<Rightarrow> model"
  | SOExtension extension
  | ConversionExtension string
      "(node_context \<Rightarrow> string + node list \<times> ov_output list) option"
      "(node_context \<Rightarrow> string + node list \<times> named_output list) option"
  | TensorflowConversionExtension string translator
  | OtherExtension

record front_end =
  m_op_translators :: translator_dictionary
  m_telemetry :: "string option"
  m_transformation_extensions :: "(model \<Rightarrow> model) list"
  m_extensions :: "extension list"
  m_conversion_extensions :: "extension list"

text \<open>\<^verbatim>\<open>FrontEnd::add_extension\<close>, lines 336 to 364.\<close>

fun add_extension :: "front_end \<Rightarrow> extension \<Rightarrow> front_end" where
  "add_extension fe (TelemetryExtension telemetry) = fe\<lparr>m_telemetry := Some telemetry\<rparr>"
| "add_extension fe (DecoderTransformationExtension transformation) =
     fe\<lparr>m_transformation_extensions := m_transformation_extensions fe @ [transformation]\<rparr>"
| "add_extension fe (SOExtension inner) =
     (let fe' = add_extension fe inner
      in fe'\<lparr>m_extensions := m_extensions fe' @ [SOExtension inner]\<rparr>)"
| "add_extension fe (ConversionExtension t converter converter_named_and_indexed) =
     (let fe' = fe\<lparr>m_conversion_extensions := m_conversion_extensions fe
                       @ [ConversionExtension t converter converter_named_and_indexed]\<rparr>
      in case converter of
           Some c \<Rightarrow>
             fe'\<lparr>m_op_translators := (m_op_translators fe')(t \<mapsto> CreatorFunctionIndexed c)\<rparr>
         | None \<Rightarrow>
             (case converter_named_and_indexed of
                Some c \<Rightarrow>
                  fe'\<lparr>m_op_translators :=
                        (m_op_translators fe')(t \<mapsto> CreatorFunctionNamedAndIndexed c)\<rparr>
              | None \<Rightarrow> fe'))"
| "add_extension fe (TensorflowConversionExtension t converter) =
     fe\<lparr>m_conversion_extensions := m_conversion_extensions fe
            @ [TensorflowConversionExtension t converter],
        m_op_translators := (m_op_translators fe)(t \<mapsto> converter)\<rparr>"
| "add_extension fe OtherExtension = fe"

subsection \<open>Conversion\<close>

text \<open>\<^verbatim>\<open>FrontEnd::decode\<close>, lines 271 to 291. The set of the required types is iterated in
  its order, \<^verbatim>\<open>NoOp\<close> first, and \<^verbatim>\<open>at\<close> raises on the first tag the registry lacks.\<close>

definition decode :: "front_end \<Rightarrow> input_model \<Rightarrow> event list \<times> (failure + model)" where
  "decode fe im =
     (case m_op_translators fe ''NoOp'' of
        None \<Rightarrow> ([], Inl (OutOfRange ''map::at''))
      | Some noop \<Rightarrow>
          (case m_op_translators fe ''Placeholder'' of
             None \<Rightarrow> ([], Inl (OutOfRange ''map::at''))
           | Some ph \<Rightarrow>
               ([SessionRun],
                get_converted_model [''NoOp'' \<mapsto> noop, ''Placeholder'' \<mapsto> ph] im)))"

text \<open>
  The first loop of the second \<^verbatim>\<open>convert\<close>, lines 294 to 298. The vector of the ordered
  operations is taken once, before the loop; a node of it is an object of the graph, so
  what a step reads of the node is its state in the graph as the earlier steps left it.
\<close>

definition current :: "model \<Rightarrow> node \<Rightarrow> node" where
  "current g n =
     (case find (\<lambda>m. node_id m = node_id n) (get_ordered_ops g) of
        None \<Rightarrow> n | Some m \<Rightarrow> m)"

fun translate_framework_nodes ::
  "node list \<Rightarrow> translator_dictionary \<Rightarrow> model \<Rightarrow> failure + model" where
  "translate_framework_nodes [] op_translators g = Inr g"
| "translate_framework_nodes (n # ns) op_translators g =
     (if is_framework_node n
      then (case translate_framework_node (current g n) op_translators g of
              Inl e \<Rightarrow> Inl e
            | Inr g' \<Rightarrow> translate_framework_nodes ns op_translators g')
      else translate_framework_nodes ns op_translators g)"

text \<open>
  \<^verbatim>\<open>void FrontEnd::convert(const std::shared_ptr<ov::Model>&)\<close>, lines 293 to 304: the
  overload that completes a partially converted model in place.
\<close>

definition convert_model ::
  "externals \<Rightarrow> front_end \<Rightarrow> model \<Rightarrow> event list \<times> (failure + model)" where
  "convert_model ext fe partiallyConverted =
     (case translate_framework_nodes (get_ordered_ops partiallyConverted)
             (m_op_translators fe) partiallyConverted of
        Inl e \<Rightarrow> ([], Inl e)
      | Inr g \<Rightarrow>
          (case validate_results ext g of
             Some e \<Rightarrow> ([], Inl e)
           | None \<Rightarrow> (let r = normalize ext g in (fst r, Inr (snd r)))))"

text \<open>The passes the registered transformation extensions put into the manager, run in order.\<close>

fun run_transformations :: "(model \<Rightarrow> model) list \<Rightarrow> nat \<Rightarrow> model \<Rightarrow> event list \<times> model" where
  "run_transformations [] k g = ([], g)"
| "run_transformations (t # ts) k g =
     (let r = run_transformations ts (Suc k) (t g) in (TransformationRun k # fst r, snd r))"

text \<open>\<^verbatim>\<open>FrontEnd::convert_partially\<close>, lines 237 to 269.\<close>

definition convert_partially ::
  "externals \<Rightarrow> front_end \<Rightarrow> input_model \<Rightarrow> event list \<times> (failure + model)" where
  "convert_partially ext fe im =
     (case im of
        ForeignInputModel \<Rightarrow> ([], Inl (GeneralFailure ''Invalid input model''))
      | InputModel dg \<Rightarrow>
          if m_transformation_extensions fe \<noteq> []
          then (case decode fe im of
                  (t0, Inl e) \<Rightarrow> (t0, Inl e)
                | (t0, Inr function) \<Rightarrow>
                    (let r1 = run_transformations (m_transformation_extensions fe) 0 function;
                         r2 = convert_model ext fe (snd r1)
                     in (t0 @ fst r1 @ fst r2, snd r2)))
          else (let translator_map = m_op_translators fe
                in case get_converted_model translator_map im of
                     Inl e \<Rightarrow> ([SessionRun], Inl e)
                   | Inr f \<Rightarrow> (let r = normalize ext f in (SessionRun # fst r, Inr (snd r)))))"

text \<open>
  The text of the exception of the strict conversion, lines 209 to 229: one sentence for
  every entry of the failure map, in the order the map is iterated, and one sentence for
  the first unsupported operation when there is one.
\<close>

definition failure_sentence :: "string \<times> string \<Rightarrow> string" where
  "failure_sentence failure =
     ''[TensorFlow Frontend] Internal error: conversion is failed for '' @ fst failure @
     '' operation with a message:'' @ [CHR 0x0A] @ snd failure @ [CHR 0x0A]"

definition unsupported_sentence :: "string \<Rightarrow> string" where
  "unsupported_sentence t =
     ''[TensorFlow Frontend] Internal error: No translator found for '' @ t @ '' node.''"

definition exception_message ::
  "externals \<Rightarrow> string list \<Rightarrow> (string \<times> string) list \<Rightarrow> string" where
  "exception_message ext unsupported_operations failures =
     concat (map failure_sentence (iteration_order ext failures)) @
     (if length unsupported_operations > 0
      then unsupported_sentence (unsupported_operations ! 0) else [])"

text \<open>The events of lines 218 to 222.\<close>

definition telemetry_events :: "front_end \<Rightarrow> string list \<Rightarrow> event list" where
  "telemetry_events fe unsupported_operations =
     (case m_telemetry fe of
        None \<Rightarrow> []
      | Some telemetry \<Rightarrow>
          map (\<lambda>unsupported_operation. SendEvent ''error_cause'' (''tf_'' @ unsupported_operation))
            unsupported_operations)"

text \<open>
  \<^verbatim>\<open>FrontEnd::convert(const InputModel::Ptr&)\<close>, lines 202 to 235: the strict conversion.
\<close>

definition convert ::
  "externals \<Rightarrow> front_end \<Rightarrow> input_model \<Rightarrow> event list \<times> (failure + model)" where
  "convert ext fe im =
     (case convert_partially ext fe im of
        (t, Inl e) \<Rightarrow> (t, Inl e)
      | (t, Inr f) \<Rightarrow>
          (let r = get_unsupported_operations_and_failures f ([], []);
               unsupported_operations = fst r;
               failures = snd r;
               is_conversion_successful =
                 (length unsupported_operations = 0 \<and> length failures = 0)
           in (t @ [CollectorRun] @ telemetry_events fe unsupported_operations
                 @ [ConversionCheck],
               if is_conversion_successful then Inr f
               else Inl (OpConversionFailure
                      (exception_message ext unsupported_operations failures)))))"

section \<open>Notions the properties are stated with\<close>

text \<open>
  The traversal of the specification, section 4.4: depth first, a node before its nested
  subgraphs, and the nested subgraphs of a node right after the node, before the next node
  of the owning graph. The list holds every node of the graph and of every nested subgraph,
  at any depth, in visiting order.
\<close>

function preorder_ops :: "model \<Rightarrow> node list"
  and preorder_ops_list :: "node list \<Rightarrow> node list"
  and preorder_ops_node :: "node \<Rightarrow> node list"
  and preorder_ops_subgraphs :: "model list \<Rightarrow> node list"
where
  "preorder_ops (Model ns) = preorder_ops_list ns"
| "preorder_ops_list [] = []"
| "preorder_ops_list (n # ns) = preorder_ops_node n @ preorder_ops_list ns"
| "preorder_ops_node (Node i f ins k ms) =
     Node i f ins k ms # (case ms of None \<Rightarrow> [] | Some gs \<Rightarrow> preorder_ops_subgraphs gs)"
| "preorder_ops_subgraphs [] = []"
| "preorder_ops_subgraphs (g # gs) = preorder_ops g @ preorder_ops_subgraphs gs"
  by pat_completeness auto
termination
  by (relation "measure (\<lambda>x. case x of
        Inl (Inl g) \<Rightarrow> 2 * size g + 1
      | Inl (Inr ns) \<Rightarrow> 2 * size_list size ns
      | Inr (Inl n) \<Rightarrow> 2 * size n
      | Inr (Inr gs) \<Rightarrow> 2 * size_list size gs)") auto

text \<open>
  The two states of a placeholder, section 3: failed when the failure message is set,
  unsupported when it is not.
\<close>

definition failure_message :: "node \<Rightarrow> string option" where
  "failure_message n =
     (case fw n of None \<Rightarrow> None | Some (dec, attrs) \<Rightarrow> map_of attrs failed_conversion_key)"

definition is_failed :: "node \<Rightarrow> bool" where
  "is_failed n = (is_framework_node n \<and> failure_message n \<noteq> None)"

definition is_unsupported :: "node \<Rightarrow> bool" where
  "is_unsupported n = (is_framework_node n \<and> failure_message n = None)"

text \<open>The tag and message of every failed node of a list, and the tag of every unsupported
  node, in the order of the list; the number of failed nodes that carry a tag.\<close>

definition failures_in :: "node list \<Rightarrow> (string \<times> string) list" where
  "failures_in xs = map (\<lambda>n. (get_op_type n, the (failure_message n))) (filter is_failed xs)"

definition unsupported_tags :: "node list \<Rightarrow> string list" where
  "unsupported_tags xs = map get_op_type (filter is_unsupported xs)"



text \<open>The collector on a list of nodes, from empty accumulators.\<close>

definition run_collector :: "node list \<Rightarrow> report" where
  "run_collector xs = fold record_framework_node xs ([], [])"

text \<open>
  The rewiring section 4.3 asks of the retry of a placeholder \<open>n\<close> whose translator
  produced \<open>new_outputs\<close>: port \<open>i\<close> of the placeholder becomes the \<open>i\<close>-th produced
  output, for \<open>i\<close> below both counts, and every other output stays as it is.
\<close>

definition rewired :: "node \<Rightarrow> named_output list \<Rightarrow> ov_output \<Rightarrow> ov_output" where
  "rewired n new_outputs v =
     (if get_node v = node_id n \<and> get_index v < min (length new_outputs) (output_size n)
      then port (new_outputs ! get_index v) else v)"

text \<open>What the loop over the two output lists has done to an output when it ends: the
  first old output equal to it decides.\<close>

fun subst_of :: "named_output list \<Rightarrow> ov_output list \<Rightarrow> ov_output \<Rightarrow> ov_output" where
  "subst_of (new # news) (old # olds) v = (if v = old then port new else subst_of news olds v)"
| "subst_of [] olds v = v"
| "subst_of news [] v = v"




section \<open>Concrete inputs\<close>

text \<open>Passes that leave the model as it is, a validation that accepts, and a map iterated
  in insertion order.\<close>

definition plain_externals :: externals where
  "plain_externals =
     \<lparr>run_pass = (\<lambda>p g. g), validate_results = (\<lambda>g. None), iteration_order = (\<lambda>xs. xs)\<rparr>"

text \<open>A translator that builds one ordinary node with one output, a new object whose
  identifier derives from the name of the decoded node, and a translator that always
  raises.\<close>

definition unary_translator :: translator where
  "unary_translator =
     CreatorFunctionIndexed (\<lambda>ctx.
       Inr ([Node (node_name (get_decoder ctx) @ ''/ov'') None (get_inputs ctx) 1 None],
            [Output (node_name (get_decoder ctx) @ ''/ov'') 0]))"

definition raising_translator :: translator where
  "raising_translator = CreatorFunctionIndexed (\<lambda>ctx. Inl ''bad shape'')"

definition known_ops :: translator_dictionary where
  "known_ops =
     [''NoOp'' \<mapsto> unary_translator, ''Placeholder'' \<mapsto> unary_translator,
      ''KnownOp'' \<mapsto> unary_translator, ''BadOp'' \<mapsto> raising_translator]"

definition plain_front_end :: front_end where
  "plain_front_end =
     \<lparr>m_op_translators = known_ops, m_telemetry = Some ''sink'',
      m_transformation_extensions = [], m_extensions = [], m_conversion_extensions = []\<rparr>"

definition identity_transformation :: "model \<Rightarrow> model" where
  "identity_transformation g = g"

definition extended_front_end :: front_end where
  "extended_front_end =
     add_extension plain_front_end (DecoderTransformationExtension identity_transformation)"


definition known_op_model :: input_model where
  "known_op_model =
     InputModel [DecodedNode ''Placeholder'' ''A'' [] 1 [],
                 DecodedNode ''KnownOp'' ''B'' [(''A'', 0)] 1 []]"

definition bad_op_model :: input_model where
  "bad_op_model = InputModel [DecodedNode ''BadOp'' ''X'' [] 1 []]"


text \<open>IR nodes: a placeholder with a tag and a failure message, a placeholder with a tag and
  no message, and a node that owns subgraphs.\<close>

definition failed_node :: "string \<Rightarrow> string \<Rightarrow> string \<Rightarrow> node" where
  "failed_node i t msg =
     Node i (Some (DecodedNode t i [] 1 [], [(failed_conversion_key, msg)])) [] 1 None"



text \<open>Two nodes of one tag whose translator raised on both.\<close>

definition twice_failed_model :: model where
  "twice_failed_model = Model [failed_node ''n1'' ''X'' ''m1'', failed_node ''n2'' ''X'' ''m2'']"



text \<open>A placeholder with two output ports, read by one consumer, and a dictionary whose
  translator for its tag produces a single output.\<close>

definition two_port_placeholder :: node where
  "two_port_placeholder = Node ''P'' (Some (DecodedNode ''KnownOp'' ''P'' [] 2 [], [])) [] 2 None"

definition two_port_model :: model where
  "two_port_model =
     Model [two_port_placeholder, Node ''C'' None [Output ''P'' 0, Output ''P'' 1] 1 None]"

section \<open>The collector as a fold over the traversal\<close>

lemma collector_is_fold:
  "get_unsupported_operations_and_failures g acc = fold record_framework_node (preorder_ops g) acc"
  "ordered_ops_loop ns acc = fold record_framework_node (preorder_ops_list ns) acc"
  "visit_node n acc = fold record_framework_node (preorder_ops_node n) acc"
  "subgraphs_loop gs acc = fold record_framework_node (preorder_ops_subgraphs gs) acc"
proof (induction g acc and ns acc and n acc and gs acc
    rule: get_unsupported_operations_and_failures_ordered_ops_loop_visit_node_subgraphs_loop.induct)
  case (4 i f ins k ms acc)
  then show ?case by (cases ms) simp_all
qed simp_all

lemma collector_run:
  "get_unsupported_operations_and_failures g ([], []) = run_collector (preorder_ops g)"
  by (simp add: collector_is_fold(1) run_collector_def)



lemma record_cases:
  "record_framework_node n (us, fs) =
     (if \<not> is_framework_node n then (us, fs)
      else if is_failed n \<and> get_op_type n \<notin> fst ` set fs
           then (us, fs @ [(get_op_type n, the (failure_message n))])
      else if get_op_type n \<notin> set us then (us @ [get_op_type n], fs)
      else (us, fs))"
  by (auto simp: record_framework_node_def is_framework_node_def is_failed_def
      failure_message_def get_op_type_def count_key_def Let_def split: option.splits)

lemma run_collector_snoc:
  "run_collector (xs @ [n]) = record_framework_node n (run_collector xs)"
  by (simp add: run_collector_def)

lemma run_collector_Nil: "run_collector [] = ([], [])"
  by (simp add: run_collector_def)

lemma failures_in_snoc:
  "failures_in (xs @ [n]) =
     (if is_failed n then failures_in xs @ [(get_op_type n, the (failure_message n))]
      else failures_in xs)"
  by (simp add: failures_in_def)

lemma unsupported_tags_snoc:
  "unsupported_tags (xs @ [n]) =
     (if is_unsupported n then unsupported_tags xs @ [get_op_type n] else unsupported_tags xs)"
  by (simp add: unsupported_tags_def)



lemma failed_or_unsupported:
  "is_framework_node n \<Longrightarrow> is_failed n \<or> is_unsupported n"
  "\<not> (is_failed n \<and> is_unsupported n)"
  "is_failed n \<Longrightarrow> is_framework_node n"
  "is_unsupported n \<Longrightarrow> is_framework_node n"
  by (auto simp: is_failed_def is_unsupported_def)

lemma failure_keys:
  "fst ` set (snd (run_collector xs)) = fst ` set (failures_in xs)"
proof (induction xs rule: rev_induct)
  case Nil
  show ?case by (simp add: failures_in_def run_collector_Nil)
next
  case (snoc n xs)
  obtain us fs where r: "run_collector xs = (us, fs)" by (cases "run_collector xs")
  with snoc have k: "fst ` set fs = fst ` set (failures_in xs)" by simp
  show ?case
    using k failed_or_unsupported(3)[of n]
    by (auto simp: run_collector_snoc r record_cases failures_in_snoc)
qed





lemma unsupported_growing:
  "set (fst (run_collector xs)) \<subseteq> set (fst (run_collector (xs @ [n])))"
proof -
  obtain us fs where r: "run_collector xs = (us, fs)" by (cases "run_collector xs")
  show ?thesis by (auto simp: run_collector_snoc r record_cases)
qed

lemma unsupported_covered:
  "set (unsupported_tags xs) \<subseteq> set (fst (run_collector xs))"
proof (induction xs rule: rev_induct)
  case Nil
  show ?case by (simp add: unsupported_tags_def)
next
  case (snoc n xs)
  obtain us fs where r: "run_collector xs = (us, fs)" by (cases "run_collector xs")
  have "is_unsupported n \<Longrightarrow> get_op_type n \<in> set (fst (run_collector (xs @ [n])))"
    using failed_or_unsupported(2)[of n] failed_or_unsupported(4)[of n]
    by (auto simp: run_collector_snoc r record_cases)
  then show ?case using snoc unsupported_growing[of xs n]
    by (auto simp: unsupported_tags_snoc)
qed


lemma run_collector_empty_iff:
  "run_collector xs = ([], []) \<longleftrightarrow> (\<forall>n \<in> set xs. \<not> is_framework_node n)"
proof
  assume e: "run_collector xs = ([], [])"
  show "\<forall>n \<in> set xs. \<not> is_framework_node n"
  proof
    fix n assume n: "n \<in> set xs"
    show "\<not> is_framework_node n"
    proof
      assume f: "is_framework_node n"
      from failed_or_unsupported(1)[OF f] show False
      proof
        assume "is_failed n"
        with n have "get_op_type n \<in> fst ` set (failures_in xs)"
          by (force simp: failures_in_def)
        with failure_keys[of xs] e show False by simp
      next
        assume "is_unsupported n"
        with n have "get_op_type n \<in> set (unsupported_tags xs)"
          by (simp add: unsupported_tags_def)
        with unsupported_covered[of xs] e show False by auto
      qed
    qed
  qed
next
  assume "\<forall>n \<in> set xs. \<not> is_framework_node n"
  then show "run_collector xs = ([], [])"
    by (induction xs rule: rev_induct) (auto simp: run_collector_snoc record_cases run_collector_Nil)
qed

lemma collector_empty_iff:
  "get_unsupported_operations_and_failures g ([], []) = ([], [])
     \<longleftrightarrow> (\<forall>n \<in> set (preorder_ops g). \<not> is_framework_node n)"
  by (simp add: collector_run run_collector_empty_iff)

section \<open>The report of the collector\<close>

text \<open>
  C1. The unsupported list and the failure map should never share a tag. On a graph with
  two nodes of tag \<open>X\<close> whose translator raised on both, the collector records the first
  node in the failure map and the second, whose tag is already a key of the map, in the
  unsupported list: the tag \<open>X\<close> is in both.
\<close>

theorem collector_repeated_failure:
  "get_unsupported_operations_and_failures twice_failed_model ([], [])
     = ([''X''], [(''X'', ''m1'')])"
  by (simp add: twice_failed_model_def failed_node_def record_framework_node_def
      count_key_def Let_def)





section \<open>The targeted re-translation\<close>

lemma subst_of_outside: "v \<notin> set olds \<Longrightarrow> subst_of news olds v = v"
  by (induction news olds v rule: subst_of.induct) auto

lemma with_input_values_id: "with_input_values (\<lambda>v. v) n = n"
  by (cases n) simp

lemma node_id_with_input_values [simp]: "node_id (with_input_values h n) = node_id n"
  by (cases n) simp

lemma replace_outputs_subst:
  "set (map port news) \<inter> set olds = {} \<Longrightarrow>
   replace_outputs news olds ns = map (with_input_values (map (subst_of news olds))) ns"
proof (induction news olds ns rule: replace_outputs.induct)
  case (1 new news old olds ns)
  have p: "port new \<notin> set olds" using "1.prems" by auto
  have e: "subst_of news olds (if v = old then port new else v)
          = subst_of (new # news) (old # olds) v" for v
    using subst_of_outside[OF p, of news] by simp
  have "with_input_values (map (subst_of news olds))
          (with_input_values (map (\<lambda>v. if v = old then port new else v)) m)
        = with_input_values (map (subst_of (new # news) (old # olds))) m" for m
    by (cases m) (simp add: e del: subst_of.simps)
  moreover have "set (map port news) \<inter> set olds = {}" using "1.prems" by auto
  ultimately show ?case
    using "1.IH" by (simp add: replace_def del: subst_of.simps)
next
  case (2 olds ns)
  show ?case by (simp add: with_input_values_id)
next
  case (3 new news ns)
  show ?case by (simp add: with_input_values_id)
qed

lemma subst_of_ports:
  "subst_of news (map (Output i) [a..<a + k]) v =
     (if get_node v = i \<and> a \<le> get_index v \<and> get_index v < a + min (length news) k
      then port (news ! (get_index v - a)) else v)"
proof (induction news arbitrary: a k)
  case Nil
  show ?case by auto
next
  case (Cons new news)
  show ?case
  proof (cases k)
    case 0
    then show ?thesis by auto
  next
    case (Suc k')
    have u: "[a..<a + Suc k'] = a # [Suc a..<Suc a + k']" by (simp add: upt_conv_Cons)
    show ?thesis
      unfolding Suc u using Cons.IH[of "Suc a" k']
      by (cases v) (auto simp: Suc_diff_le)
  qed
qed

lemma subst_of_outputs: "subst_of news (outputs n) = rewired n news"
  using subst_of_ports[of news "node_id n" 0 "output_size n"]
  by (auto simp: outputs_def rewired_def fun_eq_iff)

lemma relink_keeps:
  "c \<in> set ns \<Longrightarrow> node_id c \<noteq> node_id n \<Longrightarrow> c \<in> set (relink n created ns)"
  by (auto simp: relink_def)

text \<open>
  C7. The retry of a placeholder raises at once when the dictionary has no translator for
  the tag of the placeholder. When the translator returns outputs, none of them a port of
  the placeholder itself, the retry does not raise whatever the two counts are, and in
  the resulting graph every other node of the graph reads, at each of its inputs, the
  \<open>i\<close>-th produced output where it read port \<open>i\<close> of the placeholder, for \<open>i\<close> below
  both the produced count and the output count of the placeholder, and what it read
  before at every other input: the ports beyond the shorter count keep their consumers
  and the outputs beyond it get none.
\<close>

theorem translate_framework_node_rewires:
  "(op_translators (get_op_type n) = None \<longrightarrow>
      translate_framework_node n op_translators g
        = Inl (OpConversionFailure (''No translator found for '' @ get_op_type n @ '' node.'')))
   \<and> (\<forall>translator created new_outputs.
        op_translators (get_op_type n) = Some translator
        \<and> call_translator translator (NodeContext (fst (the (fw n))) (input_values n))
            = Inr (created, new_outputs)
        \<and> set (map port new_outputs) \<inter> set (outputs n) = {}
        \<longrightarrow> (\<exists>g'. translate_framework_node n op_translators g = Inr g'
              \<and> (\<forall>c \<in> set (get_ordered_ops g). node_id c \<noteq> node_id n \<longrightarrow>
                    with_input_values (map (rewired n new_outputs)) c
                      \<in> set (get_ordered_ops g'))))"
proof (intro conjI allI impI)
  assume "op_translators (get_op_type n) = None"
  then show "translate_framework_node n op_translators g
        = Inl (OpConversionFailure (''No translator found for '' @ get_op_type n @ '' node.''))"
    by (simp add: translate_framework_node_def)
next
  fix translator created new_outputs
  assume a: "op_translators (get_op_type n) = Some translator
        \<and> call_translator translator (NodeContext (fst (the (fw n))) (input_values n))
            = Inr (created, new_outputs)
        \<and> set (map port new_outputs) \<inter> set (outputs n) = {}"
  let ?ns = "replace_outputs new_outputs (outputs n) (get_ordered_ops g)"
  have r: "translate_framework_node n op_translators g = Inr (Model (relink n created ?ns))"
    using a by (simp add: translate_framework_node_def)
  have s: "?ns = map (with_input_values (map (rewired n new_outputs))) (get_ordered_ops g)"
    using a replace_outputs_subst[of new_outputs "outputs n" "get_ordered_ops g"]
    by (simp add: subst_of_outputs)
  have "\<forall>c \<in> set (get_ordered_ops g). node_id c \<noteq> node_id n \<longrightarrow>
          with_input_values (map (rewired n new_outputs)) c \<in> set (relink n created ?ns)"
  proof (intro ballI impI)
    fix c assume c: "c \<in> set (get_ordered_ops g)" "node_id c \<noteq> node_id n"
    then have "with_input_values (map (rewired n new_outputs)) c \<in> set ?ns"
      unfolding s by simp
    then show "with_input_values (map (rewired n new_outputs)) c \<in> set (relink n created ?ns)"
      using c(2) by (intro relink_keeps) simp_all
  qed
  then show "\<exists>g'. translate_framework_node n op_translators g = Inr g'
              \<and> (\<forall>c \<in> set (get_ordered_ops g). node_id c \<noteq> node_id n \<longrightarrow>
                    with_input_values (map (rewired n new_outputs)) c
                      \<in> set (get_ordered_ops g'))"
    using r by simp
qed

lemma two_port_call:
  "known_ops (get_op_type two_port_placeholder) = Some unary_translator"
  "call_translator unary_translator
     (NodeContext (fst (the (fw two_port_placeholder))) (input_values two_port_placeholder))
     = Inr ([Node ''P/ov'' None [] 1 None], [NamedOutput [] (Output ''P/ov'' 0)])"
  "set (map port [NamedOutput [] (Output ''P/ov'' 0)]) \<inter> set (outputs two_port_placeholder) = {}"
  by (auto simp: known_ops_def two_port_placeholder_def get_op_type_def call_translator_def
      unary_translator_def outputs_def)

theorem translate_framework_node_rewires_witness:
  "translate_framework_node two_port_placeholder Map.empty two_port_model
     = Inl (OpConversionFailure ''No translator found for KnownOp node.'')
   \<and> translate_framework_node two_port_placeholder known_ops two_port_model
       = Inr (Model [Node ''P/ov'' None [] 1 None, two_port_placeholder,
                     Node ''C'' None [Output ''P/ov'' 0, Output ''P'' 1] 1 None])
   \<and> with_input_values (map (rewired two_port_placeholder [NamedOutput [] (Output ''P/ov'' 0)]))
         (Node ''C'' None [Output ''P'' 0, Output ''P'' 1] 1 None)
       = Node ''C'' None [Output ''P/ov'' 0, Output ''P'' 1] 1 None"
proof -
  have a: "translate_framework_node two_port_placeholder Map.empty two_port_model
     = Inl (OpConversionFailure (''No translator found for '' @ get_op_type two_port_placeholder
                                   @ '' node.''))"
    using translate_framework_node_rewires
      [where op_translators = Map.empty and n = two_port_placeholder and g = two_port_model]
    by simp
  have b: "\<exists>g'. translate_framework_node two_port_placeholder known_ops two_port_model = Inr g'
     \<and> (\<forall>c \<in> set (get_ordered_ops two_port_model). node_id c \<noteq> node_id two_port_placeholder \<longrightarrow>
           with_input_values
             (map (rewired two_port_placeholder [NamedOutput [] (Output ''P/ov'' 0)])) c
           \<in> set (get_ordered_ops g'))"
    using translate_framework_node_rewires
      [where op_translators = known_ops and n = two_port_placeholder and g = two_port_model]
      two_port_call
    by blast
  have c: "translate_framework_node two_port_placeholder known_ops two_port_model
       = Inr (Model [Node ''P/ov'' None [] 1 None, two_port_placeholder,
                     Node ''C'' None [Output ''P/ov'' 0, Output ''P'' 1] 1 None])"
  proof -
    have "translate_framework_node two_port_placeholder known_ops two_port_model
       = Inr (Model (relink two_port_placeholder [Node ''P/ov'' None [] 1 None]
                (replace_outputs [NamedOutput [] (Output ''P/ov'' 0)]
                   (outputs two_port_placeholder) (get_ordered_ops two_port_model))))"
      by (simp add: translate_framework_node_def Let_def two_port_call)
    also have "outputs two_port_placeholder = [Output ''P'' 0, Output ''P'' 1]"
      by (simp add: outputs_def two_port_placeholder_def upt_rec)
    finally show ?thesis
      by (simp add: two_port_model_def two_port_placeholder_def replace_def relink_def)
  qed
  have d: "with_input_values
         (map (rewired two_port_placeholder [NamedOutput [] (Output ''P/ov'' 0)]))
         (Node ''C'' None [Output ''P'' 0, Output ''P'' 1] 1 None)
       = Node ''C'' None [Output ''P/ov'' 0, Output ''P'' 1] 1 None"
    by (simp add: rewired_def two_port_placeholder_def)
  from a b c d show ?thesis
    by (simp add: get_op_type_def two_port_placeholder_def)
qed

section \<open>Normalization\<close>



lemma report_empty_iff:
  "(fst (get_unsupported_operations_and_failures g ([], [])) = []
     \<and> snd (get_unsupported_operations_and_failures g ([], [])) = [])
   \<longleftrightarrow> get_unsupported_operations_and_failures g ([], []) = ([], [])"
  by (cases "get_unsupported_operations_and_failures g ([], [])") simp

lemma no_framework_filter:
  "(\<forall>n \<in> set xs. \<not> is_framework_node n) \<longleftrightarrow> filter is_framework_node xs = []"
  by (simp add: filter_empty_conv)






section \<open>Extensions that register nothing\<close>

text \<open>
  C10. An extension of none of the recognized classes leaves the frontend as it is; a
  generic conversion extension with neither an indexed nor a named-and-indexed converter
  leaves the dictionary of translators as it is, and so does a shared-object wrapper of an
  unrecognized extension. The function has no failing branch.
\<close>

theorem add_extension_ignores_unhandled:
  "add_extension fe OtherExtension = fe
   \<and> m_op_translators (add_extension fe (ConversionExtension t None None))
       = m_op_translators fe
   \<and> m_op_translators (add_extension fe (SOExtension OtherExtension)) = m_op_translators fe"
  by simp

theorem add_extension_ignores_unhandled_witness:
  "add_extension plain_front_end OtherExtension = plain_front_end
   \<and> m_op_translators
         (add_extension plain_front_end (ConversionExtension ''UnknownOp'' None None))
         ''UnknownOp'' = None"
  using add_extension_ignores_unhandled[of plain_front_end "''UnknownOp''"]
  by (simp add: plain_front_end_def known_ops_def)

section \<open>The two conversions\<close>

lemma convert_after_partial:
  assumes "convert_partially ext fe im = (t, Inr f)"
  shows "convert ext fe im =
     (t @ [CollectorRun]
        @ telemetry_events fe (fst (get_unsupported_operations_and_failures f ([], [])))
        @ [ConversionCheck],
      if get_unsupported_operations_and_failures f ([], []) = ([], []) then Inr f
      else Inl (OpConversionFailure
             (exception_message ext
                (fst (get_unsupported_operations_and_failures f ([], [])))
                (snd (get_unsupported_operations_and_failures f ([], []))))))"
proof -
  obtain us fs where r: "get_unsupported_operations_and_failures f ([], []) = (us, fs)"
    by (cases "get_unsupported_operations_and_failures f ([], [])")
  show ?thesis
    by (simp add: convert_def assms r Let_def)
qed























lemma extended_partial:
  "convert_partially plain_externals extended_front_end known_op_model =
     ([SessionRun, TransformationRun 0] @ map PassRun stage_a @ [CollectorRun]
        @ map PassRun stage_b,
      Inr (Model [Node ''A/ov'' None [] 1 None,
                  Node ''B/ov'' None [Output ''A/ov'' 0] 1 None]))"
  by code_simp

lemma extended_front_end_fields:
  "m_transformation_extensions extended_front_end = [identity_transformation]"
  by (simp add: extended_front_end_def plain_front_end_def)









text \<open>
  C5. A graph the strict conversion returns has no framework node, in itself or in a
  nested subgraph at any depth.
\<close>

theorem convert_returns_real_graph:
  assumes "snd (convert ext fe im) = Inr g"
  shows "filter is_framework_node (preorder_ops g) = []"
proof (cases "convert_partially ext fe im")
  case (Pair t r)
  show ?thesis
  proof (cases r)
    case (Inl e)
    with Pair assms show ?thesis by (simp add: convert_def)
  next
    case (Inr f)
    with Pair have p: "convert_partially ext fe im = (t, Inr f)" by simp
    from assms convert_after_partial[OF p]
    have "get_unsupported_operations_and_failures f ([], []) = ([], [])" "f = g"
      by (auto split: if_splits)
    then show ?thesis
      using collector_empty_iff no_framework_filter by blast
  qed
qed

theorem convert_returns_real_graph_witness:
  "snd (convert plain_externals plain_front_end known_op_model)
     = Inr (Model [Node ''A/ov'' None [] 1 None,
                   Node ''B/ov'' None [Output ''A/ov'' 0] 1 None])
   \<and> filter is_framework_node
        (preorder_ops (Model [Node ''A/ov'' None [] 1 None,
                              Node ''B/ov'' None [Output ''A/ov'' 0] 1 None])) = []"
proof -
  have c: "snd (convert plain_externals plain_front_end known_op_model)
     = Inr (Model [Node ''A/ov'' None [] 1 None,
                   Node ''B/ov'' None [Output ''A/ov'' 0] 1 None])"
    by code_simp
  from convert_returns_real_graph[OF c] c show ?thesis by blast
qed



end
